theory Spec2Isabelle
  imports Main "HOL-Library.Sublist" "HOL-Library.Word"
begin

section \<open>JavaScript values used by \<^verbatim>\<open>src/seal.ts\<close>\<close>

text \<open>
  Strings are lists of code units. The model covers one-byte code units (Isabelle's
  \<^typ>\<open>char\<close>), which the SEAL attribute syntax is written in; \<^verbatim>\<open>length\<close> counts code
  units as JavaScript's \<^verbatim>\<open>.length\<close> does. Objects used as dictionaries are maps from
  property names to values; property names are ordinary own properties (the inherited
  accessor \<^verbatim>\<open>__proto__\<close> of a JavaScript object is outside the model). Numbers are
  integers or \<^verbatim>\<open>NaN\<close>; the model is exact below \<open>2 ^ 53\<close>, where a double holds every
  integer.
\<close>

type_synonym bytes = "8 word list"

definition dquote :: char where
  "dquote = CHR 0x22"

text \<open>A value is falsy when it is \<^verbatim>\<open>undefined\<close> or the empty string.\<close>

fun truthy :: "string option \<Rightarrow> bool" where
  "truthy None = False"
| "truthy (Some s) = (s \<noteq> [])"

text \<open>\<^verbatim>\<open>arr[i]\<close>: \<^verbatim>\<open>undefined\<close> past the end.\<close>

definition at :: "'a list \<Rightarrow> nat \<Rightarrow> 'a option" where
  "at xs i = (if i < length xs then Some (xs ! i) else None)"

text \<open>\<^verbatim>\<open>s.split(c)\<close> for a separator of one character: never an empty array.\<close>

fun split_acc :: "char \<Rightarrow> string \<Rightarrow> string \<Rightarrow> string list" where
  "split_acc c acc [] = [rev acc]"
| "split_acc c acc (x # xs) =
     (if x = c then rev acc # split_acc c [] xs else split_acc c (x # acc) xs)"

definition js_split :: "char \<Rightarrow> string \<Rightarrow> string list" where
  "js_split c s = split_acc c [] s"

text \<open>\<^verbatim>\<open>s.includes(pat)\<close>, and \<^verbatim>\<open>s.match(/pat/g)\<close> read as a truth value, for a literal
  pattern.\<close>

fun js_includes :: "string \<Rightarrow> string \<Rightarrow> bool" where
  "js_includes pat [] = (pat = [])"
| "js_includes pat (x # xs) = (prefix pat (x # xs) \<or> js_includes pat xs)"

text \<open>\<^verbatim>\<open>s.replace(pat, rep)\<close> for a literal string pattern: the first occurrence only.\<close>

fun replace_first :: "string \<Rightarrow> string \<Rightarrow> string \<Rightarrow> string" where
  "replace_first pat rep [] = (if pat = [] then rep else [])"
| "replace_first pat rep (x # xs) =
     (if prefix pat (x # xs) then rep @ drop (length pat) (x # xs)
      else x # replace_first pat rep xs)"

text \<open>\<^verbatim>\<open>s.substring(a, b)\<close> for non-negative arguments: both are clamped to the length
  and swapped when out of order.\<close>

definition substring :: "string \<Rightarrow> nat \<Rightarrow> nat \<Rightarrow> string" where
  "substring s a b =
     (let a' = min a (length s); b' = min b (length s)
      in take (max a' b' - min a' b') (drop (min a' b') s))"

text \<open>The characters the regular expression dot does not match.\<close>

definition line_terminator :: "char \<Rightarrow> bool" where
  "line_terminator c = (c = CHR 0x0A \<or> c = CHR 0x0D)"

datatype jsnum = Num int | NaN

fun jsadd :: "jsnum \<Rightarrow> jsnum \<Rightarrow> jsnum" where
  "jsadd (Num a) (Num b) = Num (a + b)"
| "jsadd _ _ = NaN"

subsection \<open>\<^verbatim>\<open>parseInt\<close> with no radix\<close>

text \<open>
  Leading white space is skipped, one sign is read, a prefix \<^verbatim>\<open>0x\<close> or \<^verbatim>\<open>0X\<close> selects
  radix 16, and the longest run of digits of the radix is the value; no digit at all is
  \<^verbatim>\<open>NaN\<close>.
\<close>

definition white_space :: "char \<Rightarrow> bool" where
  "white_space c = (c = CHR 0x09 \<or> c = CHR 0x0A \<or> c = CHR 0x0B \<or> c = CHR 0x0C
     \<or> c = CHR 0x0D \<or> c = CHR 0x20 \<or> c = CHR 0xA0)"

definition digit_value :: "nat \<Rightarrow> char \<Rightarrow> nat option" where
  "digit_value radix c =
     (let n = (of_char c :: nat);
          v = (if 48 \<le> n \<and> n \<le> 57 then Some (n - 48)
               else if 97 \<le> n \<and> n \<le> 122 then Some (n - 87)
               else if 65 \<le> n \<and> n \<le> 90 then Some (n - 55)
               else None)
      in case v of None \<Rightarrow> None | Some d \<Rightarrow> if d < radix then Some d else None)"

fun digits_value :: "nat \<Rightarrow> nat option \<Rightarrow> string \<Rightarrow> nat option" where
  "digits_value radix acc [] = acc"
| "digits_value radix acc (c # cs) =
     (case digit_value radix c of
        None \<Rightarrow> acc
      | Some d \<Rightarrow> digits_value radix (Some ((case acc of None \<Rightarrow> 0 | Some a \<Rightarrow> a) * radix + d)) cs)"

definition parseInt :: "string \<Rightarrow> jsnum" where
  "parseInt s =
     (let s1 = dropWhile white_space s;
          neg = prefix ''-'' s1;
          s2 = (if prefix ''-'' s1 \<or> prefix ''+'' s1 then drop 1 s1 else s1);
          hex = (prefix ''0x'' s2 \<or> prefix ''0X'' s2);
          s3 = (if hex then drop 2 s2 else s2)
      in case digits_value (if hex then 16 else 10) None s3 of
           None \<Rightarrow> NaN
         | Some n \<Rightarrow> Num (if neg then - int n else int n))"

section \<open>Errors and promises\<close>

datatype ErrorName =
    DNS_LOOKUP
  | SEAL_RECORD_MISSING_PARAMETERS
  | KEY_IMPORT_ERROR
  | DIGEST_MISSING
  | DIGEST_ERROR
  | VALIDATION_MISSING_PARAMETERS
  | SIGNATURE_VERIFY_ERROR
  | SIGNATURE_MISSING
  | SIGNATURE_FORMAT

text \<open>
  A \<^verbatim>\<open>ValidationError\<close> carries its name and message (its \<^verbatim>\<open>cause\<close>, the collaborator's
  own text, is left out); \<open>JsError\<close> is a plain \<^verbatim>\<open>Error\<close> with its message and
  \<open>JsTypeError\<close> the error of reading a property of \<^verbatim>\<open>undefined\<close>.
\<close>

datatype js_error =
    ValidationError ErrorName string
  | JsError string
  | JsTypeError

text \<open>
  The state of a promise. \<^verbatim>\<open>resolve\<close> and \<^verbatim>\<open>reject\<close> settle a pending promise and do
  nothing to a settled one. A promise nobody settles stays \<open>Pending\<close>: whoever awaits
  it never continues.
\<close>

datatype 'a promise = Pending | Fulfilled 'a | Rejected js_error

fun settle :: "'a promise \<Rightarrow> 'a promise \<Rightarrow> 'a promise" where
  "settle Pending new = new"
| "settle old new = old"

section \<open>The record parser: \<^verbatim>\<open>SEAL.parse\<close>\<close>

record seal_segment =
  segment_string :: string
  signature_end :: int

record asset =
  asset_size :: int
  seal_segments :: "seal_segment list option"

type_synonym sealRecord = "string \<rightharpoonup> string"

text \<open>\<^verbatim>\<open>.replace(/<.{0,1}seal /, '')\<close>: the first \<^verbatim>\<open><\<close> followed by at most one
  character other than a line terminator and then \<^verbatim>\<open>seal\<close> and a space.\<close>

fun strip_open :: "string \<Rightarrow> string" where
  "strip_open [] = []"
| "strip_open (x # xs) =
     (if x = CHR ''<'' \<and> xs \<noteq> [] \<and> \<not> line_terminator (hd xs) \<and> prefix ''seal '' (tl xs)
      then drop 5 (tl xs)
      else if x = CHR ''<'' \<and> prefix ''seal '' xs then drop 5 xs
      else x # strip_open xs)"

text \<open>\<^verbatim>\<open>.replace(/\?{0,1}\/>/, '')\<close>: the first \<^verbatim>\<open>/>\<close>, with a question mark right
  before it when there is one.\<close>

fun strip_close :: "string \<Rightarrow> string" where
  "strip_close [] = []"
| "strip_close (x # xs) =
     (if x = CHR ''?'' \<and> prefix ''/>'' xs then drop 2 xs
      else if prefix ''/>'' (x # xs) then drop 2 (x # xs)
      else x # strip_close xs)"

text \<open>\<^verbatim>\<open>.replace(/&quot;/g, '"')\<close>: every occurrence, left to right.\<close>

function unescape_quot :: "string \<Rightarrow> string" where
  "unescape_quot s =
     (if s = [] then []
      else if prefix ''&quot;'' s then dquote # unescape_quot (drop 6 s)
      else hd s # unescape_quot (tl s))"
  by pat_completeness auto
termination
  by (relation "measure length") auto

declare unescape_quot.simps [simp del]

definition clean_segment :: "string \<Rightarrow> string" where
  "clean_segment s =
     replace_first ''&lt;seal '' []
       (replace_first ''/&'' []
         (replace_first ''<seal:seal>'' []
           (unescape_quot (strip_close (strip_open s)))))"

text \<open>
  The pattern \<^verbatim>\<open>/ ?(.*?)=\"(.*?)\"/gm\<close>. \<open>value_match\<close> is the lazy second group up to
  the closing quote; \<open>key_match\<close> is the lazy first group up to \<^verbatim>\<open>="\<close>, which grows by
  one character when what follows does not match; \<open>match_here\<close> is a match that starts
  at the current index, the optional space taken first. Each returns the text after the
  match.
\<close>

fun value_match :: "string \<Rightarrow> (string \<times> string) option" where
  "value_match [] = None"
| "value_match (x # xs) =
     (if x = dquote then Some ([], xs)
      else if line_terminator x then None
      else (case value_match xs of
              None \<Rightarrow> None
            | Some (v, rest) \<Rightarrow> Some (x # v, rest)))"

fun key_match :: "string \<Rightarrow> (string \<times> string \<times> string) option" where
  "key_match [] = None"
| "key_match (x # xs) =
     (case (if prefix [CHR ''='', dquote] (x # xs) then value_match (drop 2 (x # xs)) else None) of
        Some (v, rest) \<Rightarrow> Some ([], v, rest)
      | None \<Rightarrow>
          if line_terminator x then None
          else (case key_match xs of
                  None \<Rightarrow> None
                | Some (k, v, rest) \<Rightarrow> Some (x # k, v, rest)))"

definition match_here :: "string \<Rightarrow> (string \<times> string \<times> string) option" where
  "match_here s =
     (case s of
        [] \<Rightarrow> None
      | x # xs \<Rightarrow>
          if x = CHR '' '' then (case key_match xs of Some m \<Rightarrow> Some m | None \<Rightarrow> key_match s)
          else key_match s)"

lemma value_match_shorter: "value_match s = Some (v, rest) \<Longrightarrow> length rest < length s"
  by (induction s arbitrary: v) (auto split: if_splits option.splits)

lemma key_match_shorter: "key_match s = Some (k, v, rest) \<Longrightarrow> length rest < length s"
proof (induction s arbitrary: k)
  case Nil
  then show ?case by simp
next
  case (Cons x xs)
  show ?case
  proof (cases "if prefix [CHR ''='', dquote] (x # xs) then value_match (drop 2 (x # xs)) else None")
    case None
    with Cons.prems obtain k' where "key_match xs = Some (k', v, rest)"
      by (auto split: if_splits option.splits)
    with Cons.IH show ?thesis by fastforce
  next
    case (Some m)
    with Cons.prems have "value_match (drop 2 (x # xs)) = Some (v, rest)"
      by (auto split: if_splits)
    from value_match_shorter [OF this] show ?thesis by simp
  qed
qed

lemma match_here_shorter: "match_here s = Some (k, v, rest) \<Longrightarrow> length rest < length s"
proof (cases s)
  case Nil
  assume "match_here s = Some (k, v, rest)"
  with Nil show ?thesis by (simp add: match_here_def)
next
  case (Cons x xs)
  assume m: "match_here s = Some (k, v, rest)"
  then have "key_match xs = Some (k, v, rest) \<or> key_match s = Some (k, v, rest)"
    using Cons
    by (simp add: match_here_def del: key_match.simps split: if_splits option.splits)
  then show ?thesis
  proof
    assume "key_match xs = Some (k, v, rest)"
    from key_match_shorter [OF this] Cons show ?thesis by simp
  next
    assume "key_match s = Some (k, v, rest)"
    from key_match_shorter [OF this] show ?thesis .
  qed
qed

text \<open>
  The loop \<^verbatim>\<open>while ((match = parameterPattern.exec(s)) !== null)\<close>: \<^verbatim>\<open>exec\<close> looks for
  the first index, from \<^verbatim>\<open>lastIndex\<close> on, where the pattern matches, and the next search
  starts after the match. A match is never empty (it holds \<^verbatim>\<open>=""\<close> at least), so the
  guard that advances \<^verbatim>\<open>lastIndex\<close> never fires.
\<close>

function exec_all :: "string \<Rightarrow> (string \<times> string) list" where
  "exec_all s =
     (case match_here s of
        Some (k, v, rest) \<Rightarrow> (k, v) # exec_all rest
      | None \<Rightarrow> (case s of [] \<Rightarrow> [] | x # xs \<Rightarrow> exec_all xs))"
  by pat_completeness auto
termination
  by (relation "measure length") (auto dest: match_here_shorter)

declare exec_all.simps [simp del]

text \<open>\<^verbatim>\<open>sealRecord[match[1]] = match[2]\<close>, for every match in turn.\<close>

definition assign :: "sealRecord \<Rightarrow> string \<times> string \<Rightarrow> sealRecord" where
  "assign r m = r(fst m \<mapsto> snd m)"

definition scan_attributes :: "string \<Rightarrow> sealRecord" where
  "scan_attributes s = foldl assign Map.empty (exec_all s)"

text \<open>The default of \<^verbatim>\<open>da\<close> and the \<^verbatim>\<open>switch\<close> that names the digest algorithm.\<close>

definition default_da :: "string option \<Rightarrow> string" where
  "default_da v = (case v of None \<Rightarrow> ''sha256'' | Some s \<Rightarrow> if s = [] then ''sha256'' else s)"

definition digest_name :: "string \<Rightarrow> string" where
  "digest_name da =
     (if da = ''sha256'' then ''SHA-256''
      else if da = ''sha384'' then ''SHA-384''
      else if da = ''sha512'' then ''SHA-512''
      else if da = ''sha1'' then ''SHA-1''
      else ''SHA-256'')"

definition incomplete :: js_error where
  "incomplete = ValidationError SEAL_RECORD_MISSING_PARAMETERS ''The SEAL record is incomplete''"

text \<open>
  \<open>parse\<close> returns the asset as it leaves it and either the error it throws or the
  record it assigns to \<^verbatim>\<open>SEAL.record\<close>. Reading \<^verbatim>\<open>asset.seal_segments[0].string\<close> with
  no first segment throws a type error.
\<close>

definition parse :: "asset \<Rightarrow> asset \<times> (js_error + sealRecord)" where
  "parse a =
     (case seal_segments a of
        None \<Rightarrow> (a, Inl JsTypeError)
      | Some [] \<Rightarrow> (a, Inl JsTypeError)
      | Some (seg # segs) \<Rightarrow>
          (let seg' = (if js_includes ''&quot;'' (segment_string seg)
                       then seg\<lparr>signature_end := signature_end seg - 5\<rparr> else seg);
               a' = a\<lparr>seal_segments := Some (seg' # segs)\<rparr>;
               scanned = scan_attributes (clean_segment (segment_string seg));
               sealRecord = scanned(''da'' \<mapsto> digest_name (default_da (scanned ''da'')))
           in if truthy (sealRecord ''seal'') \<and> truthy (sealRecord ''d'')
                 \<and> truthy (sealRecord ''ka'') \<and> truthy (sealRecord ''s'')
              then (a', Inr sealRecord)
              else (a', Inl incomplete)))"

section \<open>The key cache: \<^verbatim>\<open>SEAL.public_keys\<close>\<close>

text \<open>A record of the DNS answer, as the DNS collaborator returns it, and the keys the
  cache holds for one domain.\<close>

record txt_record =
  txt_ka :: "string option"
  txt_seal :: "string option"
  txt_p :: "string option"

record key_entry =
  rsa :: "string option"
  ec :: "string option"

type_synonym public_keys = "string \<rightharpoonup> key_entry"

text \<open>The callback of \<^verbatim>\<open>TXTRecords.forEach\<close> and the loop itself.\<close>

definition usable :: "txt_record \<Rightarrow> bool" where
  "usable r = (truthy (txt_ka r) \<and> truthy (txt_seal r) \<and> truthy (txt_p r))"

definition store_key :: "string \<Rightarrow> public_keys \<Rightarrow> txt_record \<Rightarrow> public_keys" where
  "store_key domain pk r =
     (if usable r then
        (let e0 = (case pk domain of None \<Rightarrow> \<lparr>rsa = None, ec = None\<rparr> | Some e \<Rightarrow> e);
             e1 = (if txt_ka r = Some ''rsa'' then e0\<lparr>rsa := txt_p r\<rparr> else e0);
             e2 = (if txt_ka r = Some ''ec'' then e1\<lparr>ec := txt_p r\<rparr> else e1)
         in pk(domain \<mapsto> e2))
      else pk)"

definition store_keys :: "string \<Rightarrow> public_keys \<Rightarrow> txt_record list \<Rightarrow> public_keys" where
  "store_keys domain pk rs = foldl (store_key domain) pk rs"

text \<open>\<^verbatim>\<open>this.public_keys[d][ka]\<close>.\<close>

definition key_of :: "public_keys \<Rightarrow> string \<Rightarrow> string \<Rightarrow> string option" where
  "key_of pk domain ka =
     (case pk domain of
        None \<Rightarrow> None
      | Some e \<Rightarrow> if ka = ''rsa'' then rsa e else if ka = ''ec'' then ec e else None)"

section \<open>The collaborators\<close>

text \<open>
  The DNS lookup, the assembly of the digested bytes, the digest, the two decoders, the
  choice of algorithm parameters, the key import and the signature check live in other
  modules; they are parameters here. One that fails returns \<open>Inl\<close>.
\<close>

record ('k, 'p) env =
  getDNSTXTRecords :: "string \<Rightarrow> string \<Rightarrow> js_error + txt_record list"
  assembleBuffer :: "asset \<Rightarrow> (jsnum \<times> jsnum) list \<Rightarrow> bytes"
  subtle_digest :: "string option \<Rightarrow> bytes \<Rightarrow> js_error + bytes"
  hexToUint8Array :: "string option \<Rightarrow> js_error + bytes"
  base64ToUint8Array :: "string option \<Rightarrow> js_error + bytes"
  getAlgorithmParameters :: "string option \<Rightarrow> string option \<Rightarrow> string \<Rightarrow> 'p"
  importCryptoKey :: "string option \<Rightarrow> 'p \<Rightarrow> js_error + 'k"
  verifySignature :: "bytes \<Rightarrow> bytes \<Rightarrow> 'k \<Rightarrow> 'p \<Rightarrow> js_error + bool"

text \<open>What a verification pass calls, in the order it calls it.\<close>

datatype event =
    DnsLookup string
  | DigestStage
  | SubtleDigest
  | DoubleDigestStage
  | ImportKey
  | VerifySignature

section \<open>The validation state: \<^verbatim>\<open>SEAL.validation\<close>\<close>

record sealValidation =
  digest_ranges :: "(jsnum \<times> jsnum) list option"
  digest_summary :: string
  digest1 :: "bytes option"
  digest2 :: "bytes option"
  signature_date :: "string option"
  signature :: "string option"
  signature_bytes :: bytes
  signature_encoding :: string
  verbose :: bool
  doh_api :: string

section \<open>The range resolver and the digest stage: \<^verbatim>\<open>SEAL.digest\<close>\<close>

text \<open>
  \<^verbatim>\<open>if (parts[1]) { tok = parts[0]; n = parseInt(parts[1]) } else { n = 0 }\<close>, the step the
  source takes for \<^verbatim>\<open>sub\<close> and again for \<^verbatim>\<open>add\<close>.
\<close>

definition take_offset :: "string \<Rightarrow> string list \<Rightarrow> string \<times> jsnum" where
  "take_offset tok parts =
     (if truthy (at parts 1) then (hd parts, parseInt (parts ! 1)) else (tok, Num 0))"

text \<open>An endpoint token to the anchor text and the values of \<^verbatim>\<open>add\<close> and \<^verbatim>\<open>sub\<close>: both
  splits are of the token as written, \<^verbatim>\<open>sub\<close> is read first.\<close>

definition offsets :: "string \<Rightarrow> string \<times> jsnum \<times> jsnum" where
  "offsets tok =
     (let sub = js_split CHR ''-'' tok;
          add = js_split CHR ''+'' tok;
          (tok1, subv) = take_offset tok sub;
          (tok2, addv) = take_offset tok1 add
      in (tok2, addv, subv))"

text \<open>The two \<^verbatim>\<open>switch\<close> statements: the anchor's value and the label it sets, no label
  for \<^verbatim>\<open>P\<close> and \<^verbatim>\<open>p\<close>. Reading the first segment or the signature text throws when
  there is none.\<close>

datatype anchor = Coordinate jsnum "string option" | UnknownAnchor | AnchorTypeError

definition first_signature_end :: "asset \<Rightarrow> int option" where
  "first_signature_end a =
     (case seal_segments a of Some (seg # segs) \<Rightarrow> Some (signature_end seg) | _ \<Rightarrow> None)"

definition signature_start :: "asset \<Rightarrow> sealRecord \<Rightarrow> int option" where
  "signature_start a r =
     (case first_signature_end a of
        None \<Rightarrow> None
      | Some e \<Rightarrow> (case r ''s'' of None \<Rightarrow> None | Some s \<Rightarrow> Some (e - int (length s))))"

definition start_anchor :: "asset \<Rightarrow> sealRecord \<Rightarrow> string \<Rightarrow> anchor" where
  "start_anchor a r tok =
     (if tok = ''F'' then Coordinate (Num 0) (Some ''Start of file'')
      else if tok = ''f'' then Coordinate (Num (asset_size a)) (Some ''End of file'')
      else if tok = ''S'' then
        (case signature_start a r of
           None \<Rightarrow> AnchorTypeError
         | Some n \<Rightarrow> Coordinate (Num n) (Some ''Start of signature''))
      else if tok = ''s'' then
        (case first_signature_end a of
           None \<Rightarrow> AnchorTypeError
         | Some n \<Rightarrow> Coordinate (Num n) (Some ''End of signature''))
      else if tok = ''P'' then Coordinate (Num 0) None
      else if tok = ''p'' then Coordinate (Num 0) None
      else UnknownAnchor)"

definition stop_anchor :: "asset \<Rightarrow> sealRecord \<Rightarrow> string \<Rightarrow> anchor" where
  "stop_anchor a r tok =
     (if tok = ''F'' then Coordinate (Num 0) (Some ''Start of file'')
      else if tok = ''f'' then Coordinate (Num (asset_size a)) (Some ''End of file'')
      else if tok = ''S'' then
        (case signature_start a r of
           None \<Rightarrow> AnchorTypeError
         | Some n \<Rightarrow> Coordinate (Num n) (Some ''start of signature''))
      else if tok = ''s'' then
        (case first_signature_end a of
           None \<Rightarrow> AnchorTypeError
         | Some n \<Rightarrow> Coordinate (Num n) (Some ''end of signature''))
      else if tok = ''P'' then Coordinate (Num 0) None
      else if tok = ''p'' then Coordinate (Num 0) None
      else UnknownAnchor)"

text \<open>
  The state the callback of \<^verbatim>\<open>digest_ranges.forEach\<close> works on: the ranges and the
  summary of \<^verbatim>\<open>SEAL.validation\<close>, the two labels, and the promise of \<^verbatim>\<open>digest\<close>. The
  callback either returns (also by \<^verbatim>\<open>return reject(...)\<close>, after which the loop goes on
  with the next range) or throws, which ends the loop.
\<close>

record range_state =
  ranges :: "(jsnum \<times> jsnum) list"
  summary :: string
  show_range_start :: "string option"
  show_range_stop :: "string option"
  digest_promise :: "unit promise"

datatype 'a callback = Returned 'a | Thrown 'a

fun state_of :: "'a callback \<Rightarrow> 'a" where
  "state_of (Returned st) = st"
| "state_of (Thrown st) = st"

definition initial_range_state :: "string \<Rightarrow> range_state" where
  "initial_range_state s =
     \<lparr>ranges = [], summary = s, show_range_start = None, show_range_stop = None,
      digest_promise = Pending\<rparr>"

definition show_label :: "string option \<Rightarrow> string" where
  "show_label l = (case l of None \<Rightarrow> ''undefined'' | Some s \<Rightarrow> s)"

definition reject_range :: "range_state \<Rightarrow> string \<Rightarrow> range_state" where
  "reject_range st msg = st\<lparr>digest_promise := settle (digest_promise st) (Rejected (JsError msg))\<rparr>"

definition push_range :: "range_state \<Rightarrow> jsnum \<times> jsnum \<Rightarrow> range_state" where
  "push_range st rg =
     st\<lparr>ranges := ranges st @ [rg],
        summary := show_label (show_range_start st) @ '' to '' @ show_label (show_range_stop st)\<rparr>"

definition digest_range :: "asset \<Rightarrow> sealRecord \<Rightarrow> range_state \<Rightarrow> string \<Rightarrow> range_state callback" where
  "digest_range a r st tok =
     (let parts = js_split CHR ''~'' tok;
          (start, add, sub) = offsets (hd parts)
      in case start_anchor a r start of
           UnknownAnchor \<Rightarrow> Returned (reject_range st ''ranges start error'')
         | AnchorTypeError \<Rightarrow> Thrown st
         | Coordinate sv label \<Rightarrow>
             (let st1 = (if truthy (show_range_start st) then st
                         else (case label of
                                 None \<Rightarrow> st
                               | Some l \<Rightarrow> st\<lparr>show_range_start := Some l\<rparr>));
                  startv = jsadd (jsadd sv add) sub
              in case at parts 1 of
                   None \<Rightarrow> Thrown st1
                 | Some stop0 \<Rightarrow>
                     (let (stop, add2, sub2) = offsets stop0
                      in case stop_anchor a r stop of
                           UnknownAnchor \<Rightarrow> Returned (reject_range st1 ''ranges stop error'')
                         | AnchorTypeError \<Rightarrow> Thrown st1
                         | Coordinate ev label2 \<Rightarrow>
                             (let st2 = (case label2 of
                                           None \<Rightarrow> st1
                                         | Some l \<Rightarrow> st1\<lparr>show_range_stop := Some l\<rparr>);
                                  stopv = jsadd (jsadd ev add2) sub2
                              in Returned (push_range st2 (startv, stopv))))))"

fun for_each_range :: "asset \<Rightarrow> sealRecord \<Rightarrow> range_state \<Rightarrow> string list \<Rightarrow> range_state callback" where
  "for_each_range a r st [] = Returned st"
| "for_each_range a r st (tok # toks) =
     (case digest_range a r st tok of
        Returned st' \<Rightarrow> for_each_range a r st' toks
      | Thrown st' \<Rightarrow> Thrown st')"

text \<open>
  \<open>digest\<close> returns the validation state, the promise as it ends and the calls made.
  With no \<^verbatim>\<open>b\<close> nothing settles the promise. A throw inside the loop leaves the
  executor, an \<^verbatim>\<open>async\<close> function, so the promise stays as it was. After the loop
  \<^verbatim>\<open>crypto.subtle.digest\<close> is called whatever the loop rejected; its answer sets
  \<^verbatim>\<open>digest1\<close> and resolves, or rejects. When the loop has rejected already, the caller
  goes on before that answer arrives, so it sees no \<^verbatim>\<open>digest1\<close>.
\<close>

definition store_ranges :: "sealValidation \<Rightarrow> range_state \<Rightarrow> sealValidation" where
  "store_ranges v st = v\<lparr>digest_ranges := Some (ranges st), digest_summary := summary st\<rparr>"

definition digest ::
  "('k, 'p) env \<Rightarrow> asset \<Rightarrow> sealRecord \<Rightarrow> sealValidation \<Rightarrow> sealValidation \<times> unit promise \<times> event list" where
  "digest env a r v =
     (let v0 = v\<lparr>digest_ranges := Some []\<rparr>
      in if truthy (r ''b'') then
           (case for_each_range a r (initial_range_state (digest_summary v))
                   (js_split CHR '','' (case r ''b'' of None \<Rightarrow> [] | Some b \<Rightarrow> b)) of
              Thrown st \<Rightarrow> (store_ranges v0 st, digest_promise st, [])
            | Returned st \<Rightarrow>
                (case digest_promise st of
                   Pending \<Rightarrow>
                     (case subtle_digest env (r ''da'') (assembleBuffer env a (ranges st)) of
                        Inl e \<Rightarrow> (store_ranges v0 st, Rejected e, [SubtleDigest])
                      | Inr d \<Rightarrow> ((store_ranges v0 st)\<lparr>digest1 := Some d\<rparr>, Fulfilled (), [SubtleDigest]))
                 | Fulfilled u \<Rightarrow> (store_ranges v0 st, Fulfilled u, [SubtleDigest])
                 | Rejected e \<Rightarrow> (store_ranges v0 st, Rejected e, [SubtleDigest])))
         else (v0, Pending, []))"

section \<open>The signature decoder and the double digest: \<^verbatim>\<open>SEAL.doubleDigest\<close>\<close>

text \<open>\<^verbatim>\<open>format.charAt(format.length - 1)\<close>: the empty string for an empty format.\<close>

definition last_char :: "string \<Rightarrow> string" where
  "last_char format = (if format = [] then [] else [last format])"

text \<open>
  The callback of \<^verbatim>\<open>signature_formats.forEach\<close>, with \<open>s\<close> the stored signature text
  \<^verbatim>\<open>this.record.s\<close>.
\<close>

definition strip_format :: "string \<Rightarrow> sealValidation \<Rightarrow> sealValidation" where
  "strip_format format v =
     (case signature v of
        None \<Rightarrow> v
      | Some sig \<Rightarrow>
          if sig = [] then v else v\<lparr>signature := Some (replace_first (format @ '':'') [] sig)\<rparr>)"

definition apply_format :: "string \<Rightarrow> sealValidation \<Rightarrow> string \<Rightarrow> sealValidation" where
  "apply_format s v format =
     (let v1 = (if format = ''base64'' \<or> format = ''hex'' \<or> format = ''HEX'' \<or> format = ''bin''
                then strip_format format (v\<lparr>signature_encoding := format\<rparr>)
                else v)
      in if js_includes ''date'' format then
           (case parseInt (last_char format) of
              NaN \<Rightarrow>
                v1\<lparr>signature := Some (substring s 15 (length s)),
                   signature_date := Some (substring s 0 14)\<rparr>
            | Num accuracy \<Rightarrow>
                v1\<lparr>signature := Some (substring s (nat (16 + accuracy)) (length s)),
                   signature_date := Some (substring s 0 (nat (15 + accuracy)))\<rparr>)
         else v1)"

text \<open>The two decoding steps after the loop; a decoder that throws is caught and the
  promise rejected with what it threw.\<close>

definition decode_signature ::
  "('k, 'p) env \<Rightarrow> sealValidation \<Rightarrow> js_error + sealValidation" where
  "decode_signature env v =
     (case (if signature_encoding v = ''hex'' \<or> signature_encoding v = ''HEX''
            then (case hexToUint8Array env (signature v) of
                    Inl e \<Rightarrow> Inl e
                  | Inr b \<Rightarrow> Inr (v\<lparr>signature_bytes := b\<rparr>))
            else Inr v) of
        Inl e \<Rightarrow> Inl e
      | Inr v1 \<Rightarrow>
          if signature_encoding v1 = ''base64''
          then (case base64ToUint8Array env (signature v1) of
                  Inl e \<Rightarrow> Inl e
                | Inr b \<Rightarrow> Inr (v1\<lparr>signature_bytes := b\<rparr>))
          else Inr v1)"

text \<open>\<^verbatim>\<open>TextEncoder.encode\<close>: UTF-8, one byte below 128 and two bytes from there on.\<close>

definition encode_unit :: "char \<Rightarrow> bytes" where
  "encode_unit c =
     (let n = (of_char c :: nat)
      in if n < 128 then [of_nat n] else [of_nat (192 + n div 64), of_nat (128 + n mod 64)])"

definition encode :: "string \<Rightarrow> bytes" where
  "encode s = concat (map encode_unit s)"

definition with_colon :: "string option \<Rightarrow> string" where
  "with_colon t = (case t of None \<Rightarrow> [] | Some x \<Rightarrow> if x = [] then [] else x @ '':'')"

definition prepend :: "sealRecord \<Rightarrow> sealValidation \<Rightarrow> string" where
  "prepend r v = with_colon (signature_date v) @ with_colon (r ''id'')"

text \<open>The end of \<^verbatim>\<open>doubleDigest\<close>, which also runs after the rejection for a missing
  signature: \<^verbatim>\<open>digest2\<close> is the encoded prefix followed by \<^verbatim>\<open>digest1\<close>.\<close>

definition merge_digest ::
  "sealRecord \<Rightarrow> sealValidation \<Rightarrow> unit promise \<Rightarrow> sealValidation \<times> unit promise" where
  "merge_digest r v pr =
     (case digest1 v of
        Some d \<Rightarrow> (v\<lparr>digest2 := Some (encode (prepend r v) @ d)\<rparr>, settle pr (Fulfilled ()))
      | None \<Rightarrow>
          (v, settle pr (Rejected (ValidationError DIGEST_MISSING ''The digest is missing''))))"

definition signature_formats :: "sealRecord \<Rightarrow> string list" where
  "signature_formats r = (if truthy (r ''sf'') then js_split CHR '':'' (case r ''sf'' of None \<Rightarrow> [] | Some sf \<Rightarrow> sf) else [])"

definition doubleDigest ::
  "('k, 'p) env \<Rightarrow> sealRecord \<Rightarrow> sealValidation \<Rightarrow> sealValidation \<times> unit promise" where
  "doubleDigest env r v =
     (case r ''s'' of
        None \<Rightarrow>
          merge_digest r v (Rejected (ValidationError SIGNATURE_MISSING ''The signature is missing''))
      | Some s \<Rightarrow>
          if s = [] then
            merge_digest r v (Rejected (ValidationError SIGNATURE_MISSING ''The signature is missing''))
          else
            (let v1 = v\<lparr>signature := Some s\<rparr>;
                 v2 = (if signature_formats r \<noteq> []
                       then foldl (apply_format s) v1 (signature_formats r)
                       else v1\<lparr>signature_encoding := ''base64''\<rparr>)
             in case decode_signature env v2 of
                  Inl e \<Rightarrow> (v2, Rejected e)
                | Inr v3 \<Rightarrow> merge_digest r v3 Pending))"

section \<open>The orchestrator: \<^verbatim>\<open>SEAL.validateSig\<close>\<close>

text \<open>
  The model is of the call \<^verbatim>\<open>validateSig(asset)\<close>, \<^verbatim>\<open>verbose\<close> left at its default;
  the asset is what \<^verbatim>\<open>MediaAsset.readChunks\<close> returned. The result keeps the message
  (without its leading pictograph) and the verdict.
\<close>

record result_summary =
  message :: string
  valid :: "bool option"

definition initial_validation :: sealValidation where
  "initial_validation =
     \<lparr>digest_ranges = None, digest_summary = [], digest1 = None, digest2 = None,
      signature_date = None, signature = None, signature_bytes = [], signature_encoding = [],
      verbose = False, doh_api = ''https://mozilla.cloudflare-dns.com/dns-query''\<rparr>"

text \<open>
  The key lookup: nothing on a cache hit; on a miss the DNS query and the loop that fills
  the cache. The error, when there is one, is the one the pass rejects with before it
  returns.
\<close>

definition lookup_keys ::
  "('k, 'p) env \<Rightarrow> string \<Rightarrow> public_keys \<Rightarrow> string \<Rightarrow> js_error option \<times> event list \<times> public_keys" where
  "lookup_keys env api pk domain =
     (case pk domain of
        Some e \<Rightarrow> (None, [], pk)
      | None \<Rightarrow>
          (case getDNSTXTRecords env domain api of
             Inl e \<Rightarrow>
               (Some (ValidationError DNS_LOOKUP
                  (''Querying DoH '' @ domain @ '' DNS for a TXT record failed'')),
                [DnsLookup domain], pk)
           | Inr txts \<Rightarrow>
               (let pk1 = store_keys domain pk txts
                in case pk1 domain of
                     None \<Rightarrow>
                       (Some (ValidationError DNS_LOOKUP ''Public key not found or corrupted''),
                        [DnsLookup domain], pk1)
                   | Some e \<Rightarrow> (None, [DnsLookup domain], pk1))))"

text \<open>A rejection of a stage, as the \<^verbatim>\<open>catch\<close> after it passes it on to the caller's
  promise; the pass then goes on with the next statement.\<close>

definition catch_stage :: "unit promise \<Rightarrow> string \<Rightarrow> result_summary promise \<Rightarrow> result_summary promise" where
  "catch_stage stage msg out =
     (case stage of
        Rejected e \<Rightarrow> settle out (Rejected (ValidationError DIGEST_ERROR msg))
      | _ \<Rightarrow> out)"

text \<open>\<^verbatim>\<open>this.record.d\<close> and \<^verbatim>\<open>this.record.ka\<close>, which a parsed record always has.\<close>

definition domain_of :: "sealRecord \<Rightarrow> string" where
  "domain_of r = (case r ''d'' of None \<Rightarrow> [] | Some x \<Rightarrow> x)"

definition ka_of :: "sealRecord \<Rightarrow> string" where
  "ka_of r = (case r ''ka'' of None \<Rightarrow> [] | Some x \<Rightarrow> x)"

text \<open>From \<^verbatim>\<open>Crypto.getAlgorithmParameters\<close> to the end of the pass.\<close>

definition verify_stage ::
  "('k, 'p) env \<Rightarrow> public_keys \<Rightarrow> sealRecord \<Rightarrow> sealValidation \<Rightarrow> result_summary promise
     \<Rightarrow> result_summary promise \<times> event list" where
  "verify_stage env pk r v out =
     (let key = key_of pk (domain_of r) (ka_of r);
          algorithmParameters = getAlgorithmParameters env key (r ''da'') (ka_of r);
          missing = Rejected (ValidationError VALIDATION_MISSING_PARAMETERS
                      ''Double Digest or Signature is missing'')
      in case importCryptoKey env key algorithmParameters of
           Inl e \<Rightarrow>
             (settle (settle out (Rejected (ValidationError KEY_IMPORT_ERROR
                 ''crypto.subtle.importKey couldn't process the data''))) missing,
              [ImportKey])
         | Inr cryptoKey \<Rightarrow>
             (case digest2 v of
                None \<Rightarrow> (settle out missing, [ImportKey])
              | Some d2 \<Rightarrow>
                  if truthy (signature v) then
                    (case verifySignature env d2 (signature_bytes v) cryptoKey algorithmParameters of
                       Inl e \<Rightarrow>
                         (settle (settle out (Rejected (ValidationError SIGNATURE_VERIFY_ERROR
                             ''The signature can not be verified'')))
                            (Fulfilled \<lparr>message = ''SEAL record #1 is NOT valid.'', valid = Some False\<rparr>),
                          [ImportKey, VerifySignature])
                     | Inr result \<Rightarrow>
                         (settle out
                            (Fulfilled
                               (if result
                                then \<lparr>message = ''SEAL record #1 is valid.'', valid = Some True\<rparr>
                                else \<lparr>message = ''SEAL record #1 is NOT valid.'', valid = Some False\<rparr>)),
                          [ImportKey, VerifySignature]))
                  else (settle out missing, [ImportKey])))"

text \<open>
  \<open>validateSig\<close> returns the promise the caller holds, the calls made and the key
  cache. The body is the \<^verbatim>\<open>async\<close> executor of that promise: what \<open>parse\<close> throws
  leaves the executor and settles nothing, and an \<^verbatim>\<open>await\<close> of a stage that never
  settles never continues.
\<close>

definition validateSig ::
  "('k, 'p) env \<Rightarrow> public_keys \<Rightarrow> asset \<Rightarrow> result_summary promise \<times> event list \<times> public_keys" where
  "validateSig env pk a =
     (case seal_segments a of
        None \<Rightarrow> (Fulfilled \<lparr>message = ''No SEAL signatures found.'', valid = None\<rparr>, [], pk)
      | Some segs \<Rightarrow>
          (case parse a of
             (a1, Inl e) \<Rightarrow> (Pending, [], pk)
           | (a1, Inr r) \<Rightarrow>
               (case lookup_keys env (doh_api initial_validation) pk (domain_of r) of
                  (Some e, evs, pk1) \<Rightarrow> (Rejected e, evs, pk1)
                | (None, evs, pk1) \<Rightarrow>
                    (case digest env a1 r initial_validation of
                       (v1, Pending, devs) \<Rightarrow> (Pending, evs @ [DigestStage] @ devs, pk1)
                     | (v1, dp, devs) \<Rightarrow>
                         (let out1 = catch_stage dp ''Digest can not be processed'' Pending;
                              (v2, ddp) = doubleDigest env r v1;
                              out2 = catch_stage ddp ''doubleDigest can not be processed'' out1;
                              (out3, vevs) = verify_stage env pk1 r v2 out2
                          in (out3, evs @ [DigestStage] @ devs @ [DoubleDigestStage] @ vevs, pk1))))))"

section \<open>What the specification says, and example inputs\<close>

text \<open>
  The specification's digest-algorithm rule, in its words: \<^verbatim>\<open>sha256\<close> when the token is
  absent, the token read without regard to case, \<^verbatim>\<open>SHA-256\<close> for an unknown one.
\<close>

definition lower :: "char \<Rightarrow> char" where
  "lower c =
     (let n = (of_char c :: nat) in if 65 \<le> n \<and> n \<le> 90 then char_of (n + 32) else c)"

definition spec_digest_algorithm :: "string option \<Rightarrow> string" where
  "spec_digest_algorithm da = digest_name (map lower (default_da da))"


text \<open>A run of decimal digits, the offset of an endpoint token.\<close>

definition decimal :: "string \<Rightarrow> bool" where
  "decimal ds = (ds \<noteq> [] \<and> list_all (\<lambda>x. digit_value 10 x \<noteq> None) ds)"



text \<open>
  Stand-ins for the collaborators, to run the model on examples: a DNS answer with two
  RSA keys, an empty buffer and a fixed digest, a decoder of pairs of hexadecimal digits,
  a key import and a signature check that succeed.
\<close>

fun hex_pairs :: "string \<Rightarrow> js_error + bytes" where
  "hex_pairs [] = Inr []"
| "hex_pairs [x] = Inl (JsError ''odd length'')"
| "hex_pairs (x # y # zs) =
     (case (digit_value 16 x, digit_value 16 y, hex_pairs zs) of
        (Some h, Some l, Inr bs) \<Rightarrow> Inr (of_nat (16 * h + l) # bs)
      | _ \<Rightarrow> Inl (JsError ''not hexadecimal''))"

definition two_rsa_keys :: "txt_record list" where
  "two_rsa_keys =
     [\<lparr>txt_ka = Some ''rsa'', txt_seal = Some ''1'', txt_p = Some ''KEYA''\<rparr>,
      \<lparr>txt_ka = Some ''rsa'', txt_seal = Some ''1'', txt_p = Some ''KEYB''\<rparr>]"

definition sample_env :: "(string, string) env" where
  "sample_env =
     \<lparr>getDNSTXTRecords = (\<lambda>domain api. Inr two_rsa_keys),
      assembleBuffer = (\<lambda>a rs. []),
      subtle_digest = (\<lambda>da b. Inr [1, 2, 3]),
      hexToUint8Array = (\<lambda>s. case s of None \<Rightarrow> Inl JsTypeError | Some x \<Rightarrow> hex_pairs x),
      base64ToUint8Array = (\<lambda>s. Inr []),
      getAlgorithmParameters = (\<lambda>key da ka. ka),
      importCryptoKey = (\<lambda>key params. Inr ''key''),
      verifySignature = (\<lambda>d2 sig key params. Inr True)\<rparr>"

text \<open>An asset of 100 bytes with one record segment that ends at offset 90.\<close>

definition sample_asset :: "string \<Rightarrow> asset" where
  "sample_asset s =
     \<lparr>asset_size = 100, seal_segments = Some [\<lparr>segment_string = s, signature_end = 90\<rparr>]\<rparr>"

definition cached_key :: public_keys where
  "cached_key = [''example.com'' \<mapsto> \<lparr>rsa = Some ''KEYA'', ec = None\<rparr>]"



definition upper_da_segment :: string where
  \<open>upper_da_segment = ''<seal seal="1" da="SHA512" d="example.com" ka="rsa" s="abcd"/>''\<close>

definition escaped_segment :: string where
  \<open>escaped_segment =
     ''<seal seal=&quot;1&quot; d=&quot;example.com&quot; ka=&quot;rsa&quot; s=&quot;abcd&quot;/>''\<close>


definition no_signature_segment :: string where
  \<open>no_signature_segment = ''<seal seal="1" b="F~f" d="example.com" ka="rsa"/>''\<close>

definition no_range_segment :: string where
  \<open>no_range_segment = ''<seal seal="1" d="example.com" ka="rsa" s="abcd"/>''\<close>

definition bad_anchor_segment :: string where
  \<open>bad_anchor_segment = ''<seal seal="1" b="X~f" d="example.com" ka="rsa" s="abcd"/>''\<close>

definition minus_record :: sealRecord where
  \<open>minus_record = [''b'' \<mapsto> ''F~f-20'', ''s'' \<mapsto> ''abcd'']\<close>



section \<open>Properties of the record parser\<close>




lemma parse_record:
  assumes "seal_segments a = Some (seg # segs)" and "parse a = (a1, Inr r)"
  shows "r = (scan_attributes (clean_segment (segment_string seg)))
           (''da'' \<mapsto> digest_name (default_da
              (scan_attributes (clean_segment (segment_string seg)) ''da'')))"
  using assms by (auto simp: parse_def Let_def split: if_splits)

lemma parse_returns:
  assumes "case snd (parse a) of Inl e \<Rightarrow> False | Inr r \<Rightarrow> True"
  obtains a1 r where "parse a = (a1, Inr r)"
  using assms by (cases "parse a"; cases "snd (parse a)") auto

text \<open>
  Claim C6 (as the code has it). For every record the parser returns, the digest
  algorithm is named from the last \<^verbatim>\<open>da\<close> value of the segment by exact, case-sensitive
  comparison: \<^verbatim>\<open>sha1\<close>, \<^verbatim>\<open>sha384\<close> and \<^verbatim>\<open>sha512\<close> give \<^verbatim>\<open>SHA-1\<close>, \<^verbatim>\<open>SHA-384\<close> and
  \<^verbatim>\<open>SHA-512\<close>; every other value, an absent or empty one and an upper-case spelling
  included, gives \<^verbatim>\<open>SHA-256\<close>.
\<close>

theorem digest_algorithm_by_exact_token:
  assumes "seal_segments a = Some (seg # segs)" and "parse a = (a1, Inr r)"
  shows "r ''da'' =
     Some (let da = scan_attributes (clean_segment (segment_string seg)) ''da''
           in if da = Some ''sha1'' then ''SHA-1''
              else if da = Some ''sha384'' then ''SHA-384''
              else if da = Some ''sha512'' then ''SHA-512''
              else ''SHA-256'')"
  unfolding parse_record [OF assms]
  by (auto simp: digest_name_def default_da_def Let_def split: option.splits)

theorem digest_algorithm_by_exact_token_witness:
  "\<exists>a1 r. parse (sample_asset upper_da_segment) = (a1, Inr r) \<and> r ''da'' = Some ''SHA-256''"
proof -
  have "case snd (parse (sample_asset upper_da_segment)) of Inl e \<Rightarrow> False | Inr r \<Rightarrow> True"
    by code_simp
  then obtain a1 r where p: "parse (sample_asset upper_da_segment) = (a1, Inr r)"
    by (rule parse_returns)
  have s: "seal_segments (sample_asset upper_da_segment)
      = Some (\<lparr>segment_string = upper_da_segment, signature_end = 90\<rparr> # [])"
    by (simp add: sample_asset_def)
  have d: "scan_attributes (clean_segment upper_da_segment) ''da'' = Some ''SHA512''"
    by code_simp
  from digest_algorithm_by_exact_token [OF s p] d have "r ''da'' = Some ''SHA-256''"
    by simp
  with p show ?thesis by blast
qed

theorem upper_case_token_counterexample:
  "(case snd (parse (sample_asset upper_da_segment)) of Inl e \<Rightarrow> None | Inr r \<Rightarrow> r ''da'')
     \<noteq> Some (spec_digest_algorithm (Some ''SHA512''))"
  by code_simp

text \<open>
  Claim C8 (as the code has it). The parser itself moves the end offset of the first
  segment of the asset: back by 5 when the segment text holds \<^verbatim>\<open>&quot;\<close> (once, however
  many times it occurs), whether or not the record then turns out complete; it changes
  nothing else of the asset, and nothing at all when the text holds no \<^verbatim>\<open>&quot;\<close>.
\<close>

theorem parse_shifts_signature_end:
  assumes "seal_segments a = Some (seg # segs)"
  shows "fst (parse a) =
     a\<lparr>seal_segments := Some (seg\<lparr>signature_end :=
          (if js_includes ''&quot;'' (segment_string seg)
           then signature_end seg - 5 else signature_end seg)\<rparr> # segs)\<rparr>"
  using assms by (simp add: parse_def Let_def)

theorem parse_shifts_signature_end_witness:
  "fst (parse (sample_asset escaped_segment)) =
     \<lparr>asset_size = 100,
      seal_segments = Some [\<lparr>segment_string = escaped_segment, signature_end = 85\<rparr>]\<rparr>"
proof -
  have s: "seal_segments (sample_asset escaped_segment)
      = Some (\<lparr>segment_string = escaped_segment, signature_end = 90\<rparr> # [])"
    by (simp add: sample_asset_def)
  have i: "js_includes ''&quot;'' escaped_segment"
    by code_simp
  from parse_shifts_signature_end [OF s] i show ?thesis
    by (simp add: sample_asset_def)
qed

theorem parser_moves_offset_counterexample:
  "first_signature_end (sample_asset escaped_segment) = Some 90
   \<and> first_signature_end (fst (parse (sample_asset escaped_segment))) = Some 85"
  by code_simp



section \<open>Properties of the key cache\<close>

lemma key_of_store_key_other:
  "\<not> (usable r \<and> txt_ka r = Some alg) \<Longrightarrow> key_of (store_key d pk r) d alg = key_of pk d alg"
  by (auto simp: store_key_def key_of_def Let_def split: option.splits)

lemma key_of_store_key_same:
  "usable r \<Longrightarrow> txt_ka r = Some alg \<Longrightarrow> alg = ''rsa'' \<or> alg = ''ec''
    \<Longrightarrow> key_of (store_key d pk r) d alg = txt_p r"
  by (auto simp: store_key_def key_of_def Let_def split: option.splits)

lemma key_of_store_keys_others:
  "\<forall>r' \<in> set rs. \<not> (usable r' \<and> txt_ka r' = Some alg)
    \<Longrightarrow> key_of (store_keys d pk rs) d alg = key_of pk d alg"
proof (induction rs arbitrary: pk)
  case Nil
  then show ?case by (simp add: store_keys_def)
next
  case (Cons r rs)
  have "key_of (store_keys d (store_key d pk r) rs) d alg = key_of (store_key d pk r) d alg"
    using Cons by simp
  also have "\<dots> = key_of pk d alg"
    using Cons.prems by (intro key_of_store_key_other) simp
  finally show ?case by (simp add: store_keys_def)
qed

text \<open>
  Claim C4 (as the code has it). The cache holds at most one key for \<^verbatim>\<open>rsa\<close> and one for
  \<^verbatim>\<open>ec\<close> per domain, and when the DNS answer holds several usable records of one of
  these algorithms, the key of the last of them is the one kept: each record overwrites
  what an earlier one stored.
\<close>

theorem last_seen_key_is_kept:
  assumes "alg = ''rsa'' \<or> alg = ''ec''"
    and "usable r" and "txt_ka r = Some alg"
    and "\<forall>r' \<in> set later. \<not> (usable r' \<and> txt_ka r' = Some alg)"
  shows "key_of (store_keys d pk (earlier @ r # later)) d alg = txt_p r"
proof -
  have "store_keys d pk (earlier @ r # later)
      = store_keys d (store_key d (store_keys d pk earlier) r) later"
    by (simp add: store_keys_def)
  then show ?thesis
    using assms by (simp add: key_of_store_keys_others key_of_store_key_same)
qed

theorem last_seen_key_is_kept_witness:
  "usable (two_rsa_keys ! 1) \<and> txt_ka (two_rsa_keys ! 1) = Some ''rsa''
   \<and> key_of (store_keys ''example.com'' Map.empty two_rsa_keys) ''example.com'' ''rsa''
       = Some ''KEYB''"
proof -
  have h1: "''rsa'' = ''rsa'' \<or> ''rsa'' = ''ec''" by simp
  have h2: "usable (two_rsa_keys ! 1)" by code_simp
  have h3: "txt_ka (two_rsa_keys ! 1) = Some ''rsa''" by code_simp
  have h4: "\<forall>r' \<in> set []. \<not> (usable r' \<and> txt_ka r' = Some ''rsa'')" by simp
  have l: "two_rsa_keys = [two_rsa_keys ! 0] @ (two_rsa_keys ! 1) # []"
    by (simp add: two_rsa_keys_def)
  have p: "txt_p (two_rsa_keys ! 1) = Some ''KEYB''" by code_simp
  from last_seen_key_is_kept [OF h1 h2 h3 h4, of "''example.com''" Map.empty "[two_rsa_keys ! 0]"]
  show ?thesis using h2 h3 l p by simp
qed

theorem first_seen_key_counterexample:
  "key_of (store_keys ''example.com'' Map.empty two_rsa_keys) ''example.com'' ''rsa''
     \<noteq> txt_p (hd two_rsa_keys)"
  by code_simp

section \<open>Properties of the signature decoder\<close>




lemma digit_not_special:
  assumes "digit_value 10 c = Some n"
  shows "\<not> white_space c" and "c \<noteq> CHR ''-''" and "c \<noteq> CHR ''+''" and "c \<noteq> CHR ''~''"
    and "c \<noteq> CHR ''x''" and "c \<noteq> CHR ''X''" and "c \<noteq> CHR '',''"
  using assms by (auto simp: digit_value_def white_space_def Let_def split: if_splits)








section \<open>Properties of the range resolver\<close>





lemma digest_stores_ranges:
  assumes "r ''b'' = Some b" and "b \<noteq> []"
  shows "digest_ranges (fst (digest env a r v)) =
     Some (ranges (state_of (for_each_range a r (initial_range_state (digest_summary v))
       (js_split CHR '','' b))))"
  using assms
  by (simp add: digest_def Let_def store_ranges_def
      split: callback.splits promise.splits sum.splits)




lemma split_acc_absent:
  "c \<notin> set xs \<Longrightarrow> split_acc c acc (xs @ rest) = split_acc c (rev xs @ acc) rest"
  by (induction xs arbitrary: acc) auto

lemma js_split_absent: "c \<notin> set xs \<Longrightarrow> js_split c xs = [xs]"
  using split_acc_absent [of c xs "[]" "[]"] by (simp add: js_split_def)

lemma js_split_once:
  assumes "c \<notin> set xs" and "c \<notin> set ys"
  shows "js_split c (xs @ c # ys) = [xs, ys]"
proof -
  have "split_acc c [] (xs @ c # ys) = split_acc c (rev xs) (c # ys)"
    using split_acc_absent [OF assms(1), of "[]" "c # ys"] by simp
  also have "\<dots> = xs # split_acc c [] ys" by simp
  also have "split_acc c [] ys = [ys]"
    using js_split_absent [OF assms(2)] by (simp add: js_split_def)
  finally show ?thesis by (simp add: js_split_def)
qed

lemma decimal_char:
  assumes "decimal ds" and "x \<in> set ds"
  obtains n where "digit_value 10 x = Some n"
  using assms by (auto simp: decimal_def list_all_iff)

lemma decimal_no_separator:
  assumes "decimal ds"
  shows "CHR ''-'' \<notin> set ds" and "CHR ''+'' \<notin> set ds" and "CHR ''~'' \<notin> set ds"
    and "CHR '','' \<notin> set ds" and "CHR ''x'' \<notin> set ds" and "CHR ''X'' \<notin> set ds"
proof -
  have "x \<noteq> CHR ''-'' \<and> x \<noteq> CHR ''+'' \<and> x \<noteq> CHR ''~'' \<and> x \<noteq> CHR '',''
      \<and> x \<noteq> CHR ''x'' \<and> x \<noteq> CHR ''X''" if "x \<in> set ds" for x
  proof -
    from assms that obtain n where "digit_value 10 x = Some n" by (rule decimal_char)
    from digit_not_special [OF this] show ?thesis by simp
  qed
  then show "CHR ''-'' \<notin> set ds" and "CHR ''+'' \<notin> set ds" and "CHR ''~'' \<notin> set ds"
    and "CHR '','' \<notin> set ds" and "CHR ''x'' \<notin> set ds" and "CHR ''X'' \<notin> set ds"
    by blast+
qed

lemma digits_value_Some: "\<exists>m. digits_value radix (Some k) cs = Some m"
  by (induction cs arbitrary: k) (auto split: option.splits)

lemma parseInt_decimal:
  assumes "decimal ds"
  obtains n where "parseInt ds = Num (int n)"
proof -
  from assms obtain d ds' where ds: "ds = d # ds'" by (cases ds) (auto simp: decimal_def)
  with assms obtain k where k: "digit_value 10 d = Some k" by (auto elim: decimal_char)
  note sp = digit_not_special [OF k]
  have dw: "dropWhile white_space ds = ds"
    using sp(1) by (simp add: ds)
  have sign: "\<not> prefix ''-'' ds" "\<not> prefix ''+'' ds"
    using sp(2,3) by (simp_all add: ds)
  have nohex: "\<not> prefix ''0x'' ds" "\<not> prefix ''0X'' ds"
    using decimal_no_separator(5,6) [OF assms] by (auto simp: ds prefix_def)
  obtain m where m: "digits_value 10 None ds = Some m"
    using digits_value_Some [of 10 k ds'] by (auto simp: ds k)
  have "parseInt ds = Num (int m)"
    by (simp add: parseInt_def Let_def dw sign nohex m)
  then show ?thesis by (rule that)
qed

lemma offsets_minus:
  assumes "c \<noteq> CHR ''+''" and "c \<noteq> CHR ''-''" and "decimal ds"
  shows "offsets (c # CHR ''-'' # ds) = ([c], Num 0, parseInt ds)"
proof -
  have ne: "ds \<noteq> []" using assms(3) by (simp add: decimal_def)
  have sub: "js_split CHR ''-'' (c # CHR ''-'' # ds) = [[c], ds]"
    using js_split_once [of "CHR ''-''" "[c]" ds] assms(2) decimal_no_separator(1) [OF assms(3)]
    by simp
  have add: "js_split CHR ''+'' (c # CHR ''-'' # ds) = [c # CHR ''-'' # ds]"
    using assms(1) decimal_no_separator(2) [OF assms(3)] by (intro js_split_absent) simp
  show ?thesis
    by (simp add: offsets_def sub add take_offset_def at_def ne)
qed

lemma offsets_plus:
  assumes "c \<noteq> CHR ''+''" and "c \<noteq> CHR ''-''" and "decimal ds"
  shows "offsets (c # CHR ''+'' # ds) = ([c], parseInt ds, Num 0)"
proof -
  have ne: "ds \<noteq> []" using assms(3) by (simp add: decimal_def)
  have add: "js_split CHR ''+'' (c # CHR ''+'' # ds) = [[c], ds]"
    using js_split_once [of "CHR ''+''" "[c]" ds] assms(1) decimal_no_separator(2) [OF assms(3)]
    by simp
  have sub: "js_split CHR ''-'' (c # CHR ''+'' # ds) = [c # CHR ''+'' # ds]"
    using assms(2) decimal_no_separator(1) [OF assms(3)] by (intro js_split_absent) simp
  show ?thesis
    by (simp add: offsets_def sub add take_offset_def at_def ne)
qed

lemma stop_anchor_char:
  assumes "stop_anchor a r [c] = Coordinate x l"
  shows "c \<noteq> CHR ''+''" and "c \<noteq> CHR ''-''" and "c \<noteq> CHR ''~''" and "c \<noteq> CHR '',''"
  using assms by (auto simp: stop_anchor_def split: if_splits)

lemma offsets_F: "offsets ''F'' = (''F'', Num 0, Num 0)"
  by code_simp

lemma start_anchor_F: "start_anchor a r ''F'' = Coordinate (Num 0) (Some ''Start of file'')"
  by (simp add: start_anchor_def)

lemma digest_range_offset:
  assumes "op = CHR ''+'' \<or> op = CHR ''-''"
    and "stop_anchor a r [c] = Coordinate (Num base) lbl"
    and "decimal ds" and "parseInt ds = Num n"
  shows "\<exists>st'. digest_range a r st (''F~'' @ c # op # ds) = Returned st'
       \<and> ranges st' = ranges st @ [(Num 0, Num (base + n))]"
proof -
  note ac = stop_anchor_char [OF assms(2)]
  have parts: "js_split CHR ''~'' (CHR ''F'' # CHR ''~'' # c # op # ds) = [''F'', c # op # ds]"
    using js_split_once [of "CHR ''~''" "''F''" "c # op # ds"] ac(3) assms(1)
      decimal_no_separator(3) [OF assms(3)]
    by auto
  have off: "offsets (c # op # ds) = ([c], Num n, Num 0)
      \<or> offsets (c # op # ds) = ([c], Num 0, Num n)"
    using assms(1) offsets_minus [OF ac(1,2) assms(3)] offsets_plus [OF ac(1,2) assms(3)] assms(4)
    by auto
  then show ?thesis
    by (auto simp: digest_range_def Let_def parts offsets_F start_anchor_F at_def assms(2)
        push_range_def split: option.splits)
qed

text \<open>
  Claim C1 (what the code does). For a range \<^verbatim>\<open>F~<anchor><op><offset>\<close> whose anchor
  resolves to \<open>base\<close> and whose offset is a run of decimal digits of value \<open>n\<close>, the end
  coordinate the resolver stores is \<open>base + n\<close> for the operator \<^verbatim>\<open>+\<close> and for the
  operator \<^verbatim>\<open>-\<close> alike: the value read after a minus sign is added, where the claim
  (and the comment on the attribute \<^verbatim>\<open>b\<close> in the source) has it subtracted.
\<close>

theorem offset_is_added_for_either_operator:
  assumes "op = CHR ''+'' \<or> op = CHR ''-''"
    and "stop_anchor a r [c] = Coordinate (Num base) lbl"
    and "decimal ds"
    and "r ''b'' = Some (''F~'' @ c # op # ds)"
  shows "\<exists>n. parseInt ds = Num (int n)
       \<and> digest_ranges (fst (digest env a r v)) = Some [(Num 0, Num (base + int n))]"
proof -
  obtain n where n: "parseInt ds = Num (int n)"
    using assms(3) by (rule parseInt_decimal)
  let ?b = "''F~'' @ c # op # ds"
  have toks: "js_split CHR '','' ?b = [?b]"
    using assms(1) stop_anchor_char(4) [OF assms(2)] decimal_no_separator(4) [OF assms(3)]
    by (intro js_split_absent) auto
  obtain st' where st': "digest_range a r (initial_range_state (digest_summary v)) ?b = Returned st'"
    "ranges st' = [(Num 0, Num (base + int n))]"
    using digest_range_offset [OF assms(1,2,3) n, of "initial_range_state (digest_summary v)"]
    by (auto simp: initial_range_state_def)
  have "digest_ranges (fst (digest env a r v)) = Some (ranges st')"
    using digest_stores_ranges [of r ?b env a v] assms(4) toks st'(1) by simp
  with n st'(2) show ?thesis by auto
qed

theorem offset_is_added_for_either_operator_witness:
  "decimal ''20'' \<and> parseInt ''20'' = Num 20
   \<and> digest_ranges (fst (digest sample_env (sample_asset []) minus_record initial_validation))
       = Some [(Num 0, Num 120)]"
proof -
  have h1: "CHR ''-'' = CHR ''+'' \<or> CHR ''-'' = CHR ''-''"
    by simp
  have h2: "stop_anchor (sample_asset []) minus_record [CHR ''f'']
      = Coordinate (Num 100) (Some ''End of file'')"
    by code_simp
  have h3: "decimal ''20''"
    by code_simp
  have h4: "minus_record ''b'' = Some (''F~'' @ CHR ''f'' # CHR ''-'' # ''20'')"
    by (simp add: minus_record_def)
  have p: "parseInt ''20'' = Num 20"
    by code_simp
  from offset_is_added_for_either_operator [OF h1 h2 h3 h4, of sample_env initial_validation]
  show ?thesis using h3 p by auto
qed

section \<open>Properties of the orchestrator\<close>

lemma parse_incomplete:
  assumes "seal_segments a = Some (seg # segs)"
    and "k = ''seal'' \<or> k = ''d'' \<or> k = ''ka'' \<or> k = ''s''"
    and "\<not> truthy (scan_attributes (clean_segment (segment_string seg)) k)"
  shows "snd (parse a) = Inl incomplete"
  using assms by (auto simp: parse_def Let_def)

lemma parse_segments: "snd (parse a) = Inr r \<Longrightarrow> \<exists>segs. seal_segments a = Some segs"
  by (auto simp: parse_def split: option.splits list.splits)

lemma parse_sample:
  assumes "case snd (parse a) of Inl e \<Rightarrow> False | Inr r \<Rightarrow> True"
  shows "snd (parse a) = Inr (projr (snd (parse a)))"
  using assms by (cases "snd (parse a)") auto

lemma digest_without_range:
  assumes "\<not> truthy (r ''b'')"
  shows "digest env a r v = (v\<lparr>digest_ranges := Some []\<rparr>, Pending, [])"
  using assms by (simp add: digest_def Let_def)

lemma catch_stage_rejected: "catch_stage p msg (Rejected x) = Rejected x"
  by (simp add: catch_stage_def split: promise.splits)

lemma catch_stage_first:
  "catch_stage (Rejected e) msg Pending = Rejected (ValidationError DIGEST_ERROR msg)"
  by (simp add: catch_stage_def)

lemma verify_stage_rejected:
  "\<exists>vevs. verify_stage env pk r v (Rejected x) = (Rejected x, ImportKey # vevs)"
  by (simp add: verify_stage_def Let_def split: sum.splits option.splits)

text \<open>
  Claim C5 (what the code does). When one of \<^verbatim>\<open>seal\<close>, \<^verbatim>\<open>d\<close>, \<^verbatim>\<open>ka\<close>, \<^verbatim>\<open>s\<close> is missing
  or empty in the first segment, the parser throws the error named
  \<^verbatim>\<open>SEAL_RECORD_MISSING_PARAMETERS\<close> and the pass makes no DNS lookup and no
  cryptographic call; but the error leaves the \<^verbatim>\<open>async\<close> executor without rejecting the
  promise of the entry point, which stays pending: the caller is never given the error.
\<close>

theorem incomplete_record_settles_nothing:
  assumes "seal_segments a = Some (seg # segs)"
    and "k = ''seal'' \<or> k = ''d'' \<or> k = ''ka'' \<or> k = ''s''"
    and "\<not> truthy (scan_attributes (clean_segment (segment_string seg)) k)"
  shows "snd (parse a) = Inl incomplete \<and> validateSig env pk a = (Pending, [], pk)"
proof -
  have p: "snd (parse a) = Inl incomplete"
    using assms by (rule parse_incomplete)
  then have "validateSig env pk a = (Pending, [], pk)"
    by (cases "parse a") (simp add: validateSig_def assms(1))
  with p show ?thesis by simp
qed

theorem incomplete_record_settles_nothing_witness:
  "snd (parse (sample_asset no_signature_segment)) = Inl incomplete
   \<and> validateSig sample_env Map.empty (sample_asset no_signature_segment)
       = (Pending, [], Map.empty)"
proof -
  have h1: "seal_segments (sample_asset no_signature_segment)
      = Some (\<lparr>segment_string = no_signature_segment, signature_end = 90\<rparr> # [])"
    by (simp add: sample_asset_def)
  have h2: "''s'' = ''seal'' \<or> ''s'' = ''d'' \<or> ''s'' = ''ka'' \<or> ''s'' = ''s''"
    by simp
  have h3: "\<not> truthy (scan_attributes (clean_segment
      (segment_string \<lparr>segment_string = no_signature_segment, signature_end = 90\<rparr>)) ''s'')"
    by code_simp
  from incomplete_record_settles_nothing [OF h1 h2 h3] show ?thesis .
qed

text \<open>
  Claim C9 (what the code does). For a parsed record with no \<^verbatim>\<open>b\<close>, once the key is
  resolved, the digest stage computes no digest and settles its promise neither way, so
  the pass stops at its \<^verbatim>\<open>await\<close>: the promise of the entry point stays pending and the
  caller is given no outcome at all.
\<close>

theorem no_range_never_settles:
  assumes "snd (parse a) = Inr r" and "\<not> truthy (r ''b'')"
    and "lookup_keys env (doh_api initial_validation) pk (domain_of r) = (None, evs, pk1)"
  shows "digest env (fst (parse a)) r initial_validation
           = (initial_validation\<lparr>digest_ranges := Some []\<rparr>, Pending, [])
       \<and> validateSig env pk a = (Pending, evs @ [DigestStage], pk1)"
proof -
  from assms(1) obtain segs where s: "seal_segments a = Some segs"
    using parse_segments by blast
  have d: "digest env (fst (parse a)) r initial_validation
      = (initial_validation\<lparr>digest_ranges := Some []\<rparr>, Pending, [])"
    using assms(2) by (rule digest_without_range)
  have "validateSig env pk a = (Pending, evs @ [DigestStage], pk1)"
    using assms(1,3) d by (cases "parse a") (simp add: validateSig_def s)
  with d show ?thesis by simp
qed

theorem no_range_never_settles_witness:
  "fst (validateSig sample_env Map.empty (sample_asset no_range_segment)) = Pending
   \<and> fst (snd (validateSig sample_env Map.empty (sample_asset no_range_segment)))
       = [DnsLookup ''example.com'', DigestStage]"
proof -
  let ?a = "sample_asset no_range_segment"
  let ?r = "projr (snd (parse ?a))"
  have "case snd (parse ?a) of Inl e \<Rightarrow> False | Inr r \<Rightarrow> True"
    by code_simp
  then have h1: "snd (parse ?a) = Inr ?r"
    by (rule parse_sample)
  have h2: "\<not> truthy (?r ''b'')"
    by code_simp
  have l1: "fst (lookup_keys sample_env (doh_api initial_validation) Map.empty (domain_of ?r))
      = None"
    by code_simp
  have l2: "fst (snd (lookup_keys sample_env (doh_api initial_validation) Map.empty
      (domain_of ?r))) = [DnsLookup ''example.com'']"
    by code_simp
  obtain pk1 where h3: "lookup_keys sample_env (doh_api initial_validation) Map.empty
      (domain_of ?r) = (None, [DnsLookup ''example.com''], pk1)"
    using l1 l2
    by (cases "lookup_keys sample_env (doh_api initial_validation) Map.empty (domain_of ?r)")
      auto
  from no_range_never_settles [OF h1 h2 h3] show ?thesis by simp
qed

text \<open>
  Claim C2 (what the code does). When the digest stage rejects, the caller is given the
  error \<^verbatim>\<open>DIGEST_ERROR\<close> of that first failure, but the pass does not stop there: the
  double-digest stage and the key import still run after it.
\<close>

theorem stages_run_after_digest_rejection:
  assumes "snd (parse a) = Inr r"
    and "lookup_keys env (doh_api initial_validation) pk (domain_of r) = (None, evs, pk1)"
    and "digest env (fst (parse a)) r initial_validation = (v1, Rejected e, devs)"
  shows "\<exists>vevs. validateSig env pk a =
     (Rejected (ValidationError DIGEST_ERROR ''Digest can not be processed''),
      evs @ [DigestStage] @ devs @ [DoubleDigestStage, ImportKey] @ vevs, pk1)"
proof -
  from assms(1) obtain segs where s: "seal_segments a = Some segs"
    using parse_segments by blast
  let ?x = "ValidationError DIGEST_ERROR ''Digest can not be processed''"
  obtain v2 ddp where dd: "doubleDigest env r v1 = (v2, ddp)"
    by (cases "doubleDigest env r v1")
  obtain vevs where vs:
    "verify_stage env pk1 r v2 (Rejected ?x) = (Rejected ?x, ImportKey # vevs)"
    using verify_stage_rejected by blast
  have "validateSig env pk a =
      (Rejected ?x, evs @ [DigestStage] @ devs @ [DoubleDigestStage, ImportKey] @ vevs, pk1)"
    using assms dd vs
    by (cases "parse a")
      (simp add: validateSig_def s Let_def catch_stage_rejected catch_stage_first)
  then show ?thesis by blast
qed

theorem stages_run_after_digest_rejection_witness:
  "fst (validateSig sample_env cached_key (sample_asset bad_anchor_segment))
     = Rejected (ValidationError DIGEST_ERROR ''Digest can not be processed'')
   \<and> fst (snd (validateSig sample_env cached_key (sample_asset bad_anchor_segment)))
     = [DigestStage, SubtleDigest, DoubleDigestStage, ImportKey]"
proof -
  let ?a = "sample_asset bad_anchor_segment"
  let ?r = "projr (snd (parse ?a))"
  have "case snd (parse ?a) of Inl e \<Rightarrow> False | Inr r \<Rightarrow> True"
    by code_simp
  then have h1: "snd (parse ?a) = Inr ?r"
    by (rule parse_sample)
  have d: "domain_of ?r = ''example.com''"
    by code_simp
  have h2: "lookup_keys sample_env (doh_api initial_validation) cached_key (domain_of ?r)
      = (None, [], cached_key)"
    by (simp add: d lookup_keys_def cached_key_def)
  have d1: "fst (snd (digest sample_env (fst (parse ?a)) ?r initial_validation))
      = Rejected (JsError ''ranges start error'')"
    by code_simp
  obtain v1 devs where h3: "digest sample_env (fst (parse ?a)) ?r initial_validation
      = (v1, Rejected (JsError ''ranges start error''), devs)"
    using d1 by (cases "digest sample_env (fst (parse ?a)) ?r initial_validation") auto
  have t: "fst (snd (validateSig sample_env cached_key ?a))
      = [DigestStage, SubtleDigest, DoubleDigestStage, ImportKey]"
    by code_simp
  from stages_run_after_digest_rejection [OF h1 h2 h3] t show ?thesis by auto
qed

end
